theory Spec2Isabelle
  imports
    Complex_Main
    "HOL-Library.Word"
    "HOL-Library.Multiset"
    "HOL-Library.Sublist"
    "HOL-Library.Product_Lexorder"
    "HOL-Library.List_Lexorder"
begin

section \<open>The product management page of the inventory application\<close>

text \<open>
  The development embeds \<^verbatim>\<open>src/pages/ProductManagementPage.tsx\<close>: the sorted and
  grouped product list, the handlers of the add form, of the edit form and of the delete
  button, and the part of the rendering that decides which product is shown under which
  category heading.
\<close>

subsection \<open>Strings\<close>

text \<open>
  A JavaScript string is a sequence of UTF-16 code units. \<open>length\<close>, the regular
  expressions of the page (which carry no \<^verbatim>\<open>u\<close> flag) and \<^verbatim>\<open>===\<close> all work on
  code units, so a string is a list of 16-bit words. \<open>ascii\<close> writes the ASCII part of a
  literal; the letters outside ASCII are written by their code unit, as they stand in the
  source file (precomposed): a-umlaut \<open>0xE4\<close>, o-umlaut \<open>0xF6\<close>, u-umlaut \<open>0xFC\<close>,
  sharp s \<open>0xDF\<close>, A-umlaut \<open>0xC4\<close>, O-umlaut \<open>0xD6\<close>.
\<close>

type_synonym jsstring = "16 word list"

definition ascii :: "string \<Rightarrow> jsstring" where
  "ascii s = map of_char s"

text \<open>
  Modelled from the spec: step 1 of the identifier deriver, "Lower-case the input". The
  source calls the runtime's \<^verbatim>\<open>String.prototype.toLowerCase\<close>, whose case table is
  not part of the repository. \<open>lowerUnit\<close> is that table on the code units
  \<open>0x0000\<close> to \<open>0x00FF\<close> (Basic Latin and Latin-1 Supplement), and on the three code
  units above them whose lower-case form contains a unit of \<^verbatim>\<open>[a-z]\<close> or one of the
  four transliterated letters: \<open>0x0130\<close> (capital I with dot, which becomes two units),
  \<open>0x1E9E\<close> (capital sharp s) and \<open>0x212A\<close> (the Kelvin sign). Every other unit is
  kept as it is; the general statements below hold for whatever \<open>toLowerCase\<close>
  returns, and the worked examples use only the Latin-1 part.
\<close>

definition lowerUnit :: "16 word \<Rightarrow> jsstring" where
  "lowerUnit c =
     (if 0x41 \<le> c \<and> c \<le> 0x5A then [c + 0x20]
      else if 0xC0 \<le> c \<and> c \<le> 0xDE \<and> c \<noteq> 0xD7 then [c + 0x20]
      else if c = 0x130 then [0x69, 0x307]
      else if c = 0x1E9E then [0xDF]
      else if c = 0x212A then [0x6B]
      else [c])"

definition toLowerCase :: "jsstring \<Rightarrow> jsstring" where
  "toLowerCase s = concat (map lowerUnit s)"

text \<open>
  \<^verbatim>\<open>s.replace(/[...]/g, f)\<close> for a regular expression that is one character class:
  every code unit of the class is a match of its own, replaced by what the callback
  returns for it; the other units are copied.
\<close>

definition replaceAllUnits :: "(16 word \<Rightarrow> bool) \<Rightarrow> (16 word \<Rightarrow> jsstring) \<Rightarrow> jsstring \<Rightarrow> jsstring" where
  "replaceAllUnits inClass callback s =
     concat (map (\<lambda>c. if inClass c then callback c else [c]) s)"

subsection \<open>The identifier of a new product\<close>

text \<open>
  \<open>chars\<close> is the object literal of the first callback, \<open>transliterate\<close> the callback
  \<^verbatim>\<open>(match) => chars[match] || match\<close>: the entry of the table, and the match itself when
  there is none.
\<close>

definition chars :: "(16 word \<times> jsstring) list" where
  "chars = [(0xE4, ascii ''ae''), (0xF6, ascii ''oe''), (0xFC, ascii ''ue''), (0xDF, ascii ''ss'')]"

definition transliterate :: "16 word \<Rightarrow> jsstring" where
  "transliterate match = (case map_of chars match of Some r \<Rightarrow> r | None \<Rightarrow> [match])"

text \<open>
  The two character classes: the four letters a-umlaut, o-umlaut, u-umlaut and sharp s of
  the first regular expression, and \<^verbatim>\<open>[a-z0-9]\<close>, which the second one negates.
\<close>

definition umlautClass :: "16 word \<Rightarrow> bool" where
  "umlautClass c = (c = 0xE4 \<or> c = 0xF6 \<or> c = 0xFC \<or> c = 0xDF)"

definition lowerAlnumClass :: "16 word \<Rightarrow> bool" where
  "lowerAlnumClass c = ((0x61 \<le> c \<and> c \<le> 0x7A) \<or> (0x30 \<le> c \<and> c \<le> 0x39))"

text \<open>
  The expression bound to \<^verbatim>\<open>id\<close> in \<^verbatim>\<open>handleAddProduct\<close>:
  \<^verbatim>\<open>name.toLowerCase().replace(<the four letters>, ...).replace(/[^a-z0-9]/g, '-')\<close>.
\<close>

definition derive_id :: "jsstring \<Rightarrow> jsstring" where
  "derive_id name_in =
     replaceAllUnits (\<lambda>c. \<not> lowerAlnumClass c) (\<lambda>_. ascii ''-'')
       (replaceAllUnits umlautClass transliterate (toLowerCase name_in))"

text \<open>
  The specification's description of the deriver, unit by unit of the lower-cased name:
  the four letters become their digraph, a unit of \<^verbatim>\<open>[a-z0-9]\<close> stays, and any other
  unit becomes one hyphen.
\<close>

definition spec_id_unit :: "16 word \<Rightarrow> jsstring" where
  "spec_id_unit c =
     (if c = 0xE4 then ascii ''ae''
      else if c = 0xF6 then ascii ''oe''
      else if c = 0xFC then ascii ''ue''
      else if c = 0xDF then ascii ''ss''
      else if lowerAlnumClass c then [c]
      else ascii ''-'')"

definition spec_derive_id :: "jsstring \<Rightarrow> jsstring" where
  "spec_derive_id name_in = concat (map spec_id_unit (toLowerCase name_in))"

subsection \<open>Products, drafts and the state of the page\<close>

text \<open>
  Modelled from the spec: the type \<^verbatim>\<open>Product\<close> of \<^verbatim>\<open>types/inventory\<close>, which the
  page imports and which is not among the sources. Its fields are the six the page reads
  and writes. The field \<^verbatim>\<open>id\<close> is \<open>id_p\<close> here. The declared type of \<open>category\<close>
  is the union of the three literals, which is a string when the page runs: nothing
  checks a record that arrives from the store, so the field is a string, and \<open>typed\<close>
  says that a record respects the declaration. The page copies \<open>kgFactor\<close> and
  \<open>order\<close>, compares the former with \<^verbatim>\<open>undefined\<close> and adds one to a length; the
  numbers are reals.
\<close>

record product =
  id_p :: jsstring
  name :: jsstring
  category :: jsstring
  unit :: jsstring
  kgFactor :: real
  order :: real

abbreviation fruits :: jsstring where "fruits \<equiv> ascii ''fruits''"
abbreviation vegetables :: jsstring where "vegetables \<equiv> ascii ''vegetables''"
abbreviation salads :: jsstring where "salads \<equiv> ascii ''salads''"

definition typed :: "product \<Rightarrow> bool" where
  "typed p = (category p = fruits \<or> category p = vegetables \<or> category p = salads)"

text \<open>
  \<^verbatim>\<open>Partial<Product>\<close>, the type of the new-product draft: every field may be
  \<^verbatim>\<open>undefined\<close>, which is \<open>None\<close>.
\<close>

record partial_product =
  id_opt :: "jsstring option"
  name_opt :: "jsstring option"
  category_opt :: "jsstring option"
  unit_opt :: "jsstring option"
  kgFactor_opt :: "real option"
  order_opt :: "real option"

text \<open>
  The state a handler sees: what the hook \<^verbatim>\<open>useProducts\<close> exposes (the collection, the
  loading flag and the error, a string or \<^verbatim>\<open>null\<close>) and the two pieces of component
  state. The handlers never assign \<open>products\<close>: they hand a whole new collection to
  \<^verbatim>\<open>saveProducts\<close>.
\<close>

record page =
  products :: "product list"
  loading :: bool
  error :: "jsstring option"
  editingProduct :: "product option"
  newProduct :: partial_product

text \<open>The argument of \<^verbatim>\<open>useState\<close> for the draft, and of the reset after an addition.\<close>

definition initialNewProduct :: partial_product where
  "initialNewProduct =
     \<lparr>id_opt = None, name_opt = None, category_opt = Some vegetables,
      unit_opt = Some (ascii ''St'' @ [0xFC] @ ascii ''ck''), kgFactor_opt = Some 1,
      order_opt = None\<rparr>"

text \<open>
  What a handler does besides changing state is a list of calls, in the order the
  handler makes them. \<^verbatim>\<open>saveProducts\<close> belongs to the hook, which is not among the
  sources; a handler awaits it, so the statements after the call run only when the
  promise resolves. The collaborator is a parameter that tells, for the collection it is
  given, which of the two happens.
\<close>

datatype effect = SaveScrollPosition | SaveProducts "product list"

datatype outcome = Resolved | Rejected

fun persisted :: "effect list \<Rightarrow> product list list" where
  "persisted [] = []"
| "persisted (SaveScrollPosition # es) = persisted es"
| "persisted (SaveProducts ps # es) = ps # persisted es"

subsection \<open>The handlers\<close>

text \<open>
  \<^verbatim>\<open>handleUnitChange\<close>: \<open>newUnit\<close> is \<^verbatim>\<open>e.target.value\<close>. \<open>newKgFactor\<close> is 1 for
  the unit "kg" and \<^verbatim>\<open>undefined\<close> otherwise, and \<^verbatim>\<open>??\<close> falls back to the factor
  the draft holds.
\<close>

definition handleUnitChange :: "jsstring \<Rightarrow> bool \<Rightarrow> page \<Rightarrow> page \<times> effect list" where
  "handleUnitChange newUnit isNewProduct s =
     (let newKgFactor = (if newUnit = ascii ''kg'' then Some 1 else None) in
      if isNewProduct then
        (s\<lparr>newProduct := (newProduct s)
             \<lparr>unit_opt := Some newUnit,
              kgFactor_opt := (case newKgFactor of
                                 Some k \<Rightarrow> Some k
                               | None \<Rightarrow> kgFactor_opt (newProduct s))\<rparr>\<rparr>, [])
      else
        (case editingProduct s of
           Some prev \<Rightarrow>
             (s\<lparr>editingProduct := Some (prev
                  \<lparr>unit := newUnit,
                   kgFactor := (case newKgFactor of Some k \<Rightarrow> k | None \<Rightarrow> kgFactor prev)\<rparr>)\<rparr>, [])
         | None \<Rightarrow> (s, [])))"

text \<open>The three other change handlers of the edit form, written inline in the markup.\<close>

definition onChangeEditName :: "jsstring \<Rightarrow> page \<Rightarrow> page \<times> effect list" where
  "onChangeEditName v s =
     (s\<lparr>editingProduct := map_option (\<lambda>prev. prev\<lparr>name := v\<rparr>) (editingProduct s)\<rparr>, [])"

definition onChangeEditCategory :: "jsstring \<Rightarrow> page \<Rightarrow> page \<times> effect list" where
  "onChangeEditCategory v s =
     (s\<lparr>editingProduct := map_option (\<lambda>prev. prev\<lparr>category := v\<rparr>) (editingProduct s)\<rparr>, [])"

definition onChangeEditKgFactor :: "real \<Rightarrow> page \<Rightarrow> page \<times> effect list" where
  "onChangeEditKgFactor v s =
     (s\<lparr>editingProduct := map_option (\<lambda>prev. prev\<lparr>kgFactor := v\<rparr>) (editingProduct s)\<rparr>, [])"

definition handleEditProduct :: "product \<Rightarrow> page \<Rightarrow> page \<times> effect list" where
  "handleEditProduct p s = (s\<lparr>editingProduct := Some p\<rparr>, [SaveScrollPosition])"

definition handleSaveEdit :: "(product list \<Rightarrow> outcome) \<Rightarrow> page \<Rightarrow> page \<times> effect list" where
  "handleSaveEdit saveProducts s =
     (case editingProduct s of
        None \<Rightarrow> (s, [])
      | Some e \<Rightarrow>
          (let updatedProducts = map (\<lambda>p. if id_p p = id_p e then e else p) (products s) in
           (case saveProducts updatedProducts of
              Resolved \<Rightarrow> s\<lparr>editingProduct := None\<rparr>
            | Rejected \<Rightarrow> s,
            [SaveScrollPosition, SaveProducts updatedProducts])))"

definition handleCancelEdit :: "page \<Rightarrow> page \<times> effect list" where
  "handleCancelEdit s = (s\<lparr>editingProduct := None\<rparr>, [])"

text \<open>
  \<^verbatim>\<open>handleAddProduct\<close>. The condition tests \<open>name\<close>, \<open>category\<close> and \<open>unit\<close> for
  truthiness (a string that is defined and not empty) and \<open>kgFactor\<close> against
  \<^verbatim>\<open>undefined\<close>. The cast of \<open>category\<close> checks nothing at run time.
\<close>

definition handleAddProduct :: "(product list \<Rightarrow> outcome) \<Rightarrow> page \<Rightarrow> page \<times> effect list" where
  "handleAddProduct saveProducts s =
     (case (name_opt (newProduct s), category_opt (newProduct s),
            unit_opt (newProduct s), kgFactor_opt (newProduct s)) of
        (Some n, Some c, Some u, Some k) \<Rightarrow>
          if n \<noteq> [] \<and> c \<noteq> [] \<and> u \<noteq> [] then
            (let newProductComplete =
                   \<lparr>id_p = derive_id n, name = n, category = c, unit = u, kgFactor = k,
                    order = real (length (products s)) + 1\<rparr>;
                 updatedProducts = products s @ [newProductComplete] in
             (case saveProducts updatedProducts of
                Resolved \<Rightarrow> s\<lparr>newProduct := initialNewProduct\<rparr>
              | Rejected \<Rightarrow> s,
              [SaveScrollPosition, SaveProducts updatedProducts]))
          else (s, [])
      | _ \<Rightarrow> (s, []))"

text \<open>
  \<^verbatim>\<open>handleDeleteProduct\<close>: \<open>confirmed\<close> is the answer of \<^verbatim>\<open>window.confirm\<close>. Nothing
  follows the awaited call, so its outcome changes nothing here.
\<close>

definition handleDeleteProduct :: "bool \<Rightarrow> jsstring \<Rightarrow> page \<Rightarrow> page \<times> effect list" where
  "handleDeleteProduct confirmed productId s =
     (if confirmed then
        (s, [SaveScrollPosition, SaveProducts (filter (\<lambda>p. id_p p \<noteq> productId) (products s))])
      else (s, []))"

subsection \<open>The sorted list\<close>

text \<open>
  \<open>categoryOrder\<close> is the object literal of the comparator. The comparator subtracts the
  two ranks when the categories differ; a category without an entry has the rank
  \<^verbatim>\<open>undefined\<close> (or a member every object inherits), and the difference is then not a
  number, which is \<open>None\<close>. For equal categories it is
  \<^verbatim>\<open>a.name.localeCompare(b.name, 'de')\<close>. The German collation belongs to the runtime
  and is a parameter: a function that returns a negative number, zero or a positive one.
\<close>

definition categoryOrder :: "(jsstring \<times> int) list" where
  "categoryOrder = [(fruits, 1), (vegetables, 2), (salads, 3)]"

definition compareProducts :: "(jsstring \<Rightarrow> jsstring \<Rightarrow> int) \<Rightarrow> product \<Rightarrow> product \<Rightarrow> int option" where
  "compareProducts localeCompare a b =
     (if category a \<noteq> category b then
        (case (map_of categoryOrder (category a), map_of categoryOrder (category b)) of
           (Some ra, Some rb) \<Rightarrow> Some (ra - rb)
         | _ \<Rightarrow> None)
      else Some (localeCompare (name a) (name b)))"

text \<open>
  \<^verbatim>\<open>Array.prototype.sort\<close> with a comparator. The runtime reads a result that is not a
  number as zero. For a consistent comparator the language fixes the result: the elements
  ordered by the comparator, those that compare equal in their original order. Insertion
  from the right, in front of the first element that is not smaller, computes it. For an
  inconsistent comparator the language leaves the order to the runtime.
\<close>

definition sortCompare :: "('a \<Rightarrow> 'a \<Rightarrow> int option) \<Rightarrow> 'a \<Rightarrow> 'a \<Rightarrow> int" where
  "sortCompare comparefn x y = (case comparefn x y of None \<Rightarrow> 0 | Some v \<Rightarrow> v)"

fun insertSorted :: "('a \<Rightarrow> 'a \<Rightarrow> int) \<Rightarrow> 'a \<Rightarrow> 'a list \<Rightarrow> 'a list" where
  "insertSorted cmp x [] = [x]"
| "insertSorted cmp x (y # ys) =
     (if cmp x y \<le> 0 then x # y # ys else y # insertSorted cmp x ys)"

definition arraySort :: "('a \<Rightarrow> 'a \<Rightarrow> int option) \<Rightarrow> 'a list \<Rightarrow> 'a list" where
  "arraySort comparefn xs = foldr (insertSorted (sortCompare comparefn)) xs []"

definition sortedProducts :: "(jsstring \<Rightarrow> jsstring \<Rightarrow> int) \<Rightarrow> product list \<Rightarrow> product list" where
  "sortedProducts localeCompare ps = arraySort (compareProducts localeCompare) ps"

text \<open>
  The specification's composite key: the rank of the category (1, 2, 3 in the display
  order; the specification gives no rank to another category, which is 0 here), then the
  name under the collation, given by a collation key \<open>ck\<close>. Pairs are ordered
  lexicographically.
\<close>

definition category_rank :: "jsstring \<Rightarrow> int" where
  "category_rank c =
     (if c = fruits then 1 else if c = vegetables then 2 else if c = salads then 3 else 0)"

definition composite_key :: "(jsstring \<Rightarrow> 'k) \<Rightarrow> product \<Rightarrow> int \<times> 'k" where
  "composite_key ck p = (category_rank (category p), ck (name p))"

text \<open>
  A small collation to run the sort on: names are compared by their lower-cased units,
  with a-umlaut, o-umlaut and u-umlaut filed under a, o and u.
\<close>

definition baseLetter :: "16 word \<Rightarrow> 16 word" where
  "baseLetter c = (if c = 0xE4 then 0x61 else if c = 0xF6 then 0x6F else if c = 0xFC then 0x75 else c)"

definition sampleKey :: "jsstring \<Rightarrow> jsstring" where
  "sampleKey s = map baseLetter (toLowerCase s)"

definition sampleCompare :: "jsstring \<Rightarrow> jsstring \<Rightarrow> int" where
  "sampleCompare a b =
     (if sampleKey a < sampleKey b then - 1 else if sampleKey a = sampleKey b then 0 else 1)"

subsection \<open>The groups and what is rendered\<close>

text \<open>
  The accumulator of the \<^verbatim>\<open>reduce\<close> is an object that starts empty. Reading
  \<^verbatim>\<open>acc[product.category]\<close> finds an own property, or else a member inherited from
  \<^verbatim>\<open>Object.prototype\<close>, or else \<^verbatim>\<open>undefined\<close>. An inherited member is truthy, so no
  array is stored, and it has no \<^verbatim>\<open>push\<close>: the call raises a \<^verbatim>\<open>TypeError\<close>.
  \<open>objectPrototypeKeys\<close> lists the inherited names.
\<close>

datatype exception = TypeError

definition objectPrototypeKeys :: "jsstring list" where
  "objectPrototypeKeys =
     map ascii [''constructor'', ''hasOwnProperty'', ''isPrototypeOf'', ''propertyIsEnumerable'',
       ''toLocaleString'', ''toString'', ''valueOf'', ''__proto__'', ''__defineGetter__'',
       ''__defineSetter__'', ''__lookupGetter__'', ''__lookupSetter__'']"

definition groupStep :: "(jsstring \<rightharpoonup> product list) \<Rightarrow> product \<Rightarrow> exception + (jsstring \<rightharpoonup> product list)" where
  "groupStep acc p =
     (case acc (category p) of
        Some ps \<Rightarrow> Inr (acc(category p \<mapsto> ps @ [p]))
      | None \<Rightarrow>
          if category p \<in> set objectPrototypeKeys then Inl TypeError
          else Inr (acc(category p \<mapsto> [p])))"

fun reduceGroups :: "(jsstring \<rightharpoonup> product list) \<Rightarrow> product list \<Rightarrow> exception + (jsstring \<rightharpoonup> product list)" where
  "reduceGroups acc [] = Inr acc"
| "reduceGroups acc (p # ps) =
     (case groupStep acc p of Inl e \<Rightarrow> Inl e | Inr acc' \<Rightarrow> reduceGroups acc' ps)"

definition groupedProducts :: "(jsstring \<Rightarrow> jsstring \<Rightarrow> int) \<Rightarrow> product list \<Rightarrow> exception + (jsstring \<rightharpoonup> product list)" where
  "groupedProducts localeCompare ps = reduceGroups Map.empty (sortedProducts localeCompare ps)"

text \<open>
  The markup, as far as it places products: the component returns the spinner while
  loading and the message when there is an error; otherwise one group per key of
  \<open>categoryNames\<close>, in the order of the literal, with its heading and one card per
  product of \<^verbatim>\<open>groupedProducts[category]\<close>. The optional chaining renders nothing for
  a category without an entry. A card is in edit mode when the draft has the id of its
  product.
\<close>

definition categoryNames :: "(jsstring \<times> jsstring) list" where
  "categoryNames =
     [(fruits, ascii ''Obst''), (vegetables, ascii ''Gem'' @ [0xFC] @ ascii ''se''),
      (salads, ascii ''Salate'')]"

record card =
  card_product :: product
  edit_mode :: bool

record category_group =
  group_key :: jsstring
  heading :: jsstring
  cards :: "card list"

datatype view = LoadingSpinner | ErrorMessage jsstring | CategoryList "category_group list"

definition renderGroup :: "page \<Rightarrow> (jsstring \<rightharpoonup> product list) \<Rightarrow> jsstring \<Rightarrow> category_group" where
  "renderGroup s grouped c =
     \<lparr>group_key = c,
      heading = (case map_of categoryNames c of Some label \<Rightarrow> label | None \<Rightarrow> []),
      cards = (case grouped c of
                 None \<Rightarrow> []
               | Some ps \<Rightarrow>
                   map (\<lambda>p. \<lparr>card_product = p,
                            edit_mode = (case editingProduct s of
                                           None \<Rightarrow> False
                                         | Some e \<Rightarrow> id_p e = id_p p)\<rparr>) ps)\<rparr>"

definition render :: "(jsstring \<Rightarrow> jsstring \<Rightarrow> int) \<Rightarrow> page \<Rightarrow> exception + view" where
  "render localeCompare s =
     (if loading s then Inr LoadingSpinner
      else case error s of
        Some (m # msg) \<Rightarrow> Inr (ErrorMessage (m # msg))
      | _ \<Rightarrow>
         (case groupedProducts localeCompare (products s) of
            Inl e \<Rightarrow> Inl e
          | Inr grouped \<Rightarrow>
              Inr (CategoryList (map (renderGroup s grouped) (map fst categoryNames)))))"

subsection \<open>The events of the edit form and sample data\<close>

text \<open>
  What the user can do to the draft while a card is in edit mode: one constructor for each
  of the four controls of the form, applied by the handler the control is wired to.
\<close>

datatype edit_action =
  ChangeName jsstring | ChangeCategory jsstring | ChangeUnit jsstring | ChangeKgFactor real

fun applyEdit :: "edit_action \<Rightarrow> page \<Rightarrow> page" where
  "applyEdit (ChangeName v) s = fst (onChangeEditName v s)"
| "applyEdit (ChangeCategory v) s = fst (onChangeEditCategory v s)"
| "applyEdit (ChangeUnit v) s = fst (handleUnitChange v False s)"
| "applyEdit (ChangeKgFactor v) s = fst (onChangeEditKgFactor v s)"

text \<open>
  The records of the specification's end-to-end example, further records and drafts to
  run the handlers on, a page that is loaded without error, and a store that accepts
  every collection.
\<close>

abbreviation stueck :: jsstring where
  "stueck \<equiv> ascii ''St'' @ [0xFC] @ ascii ''ck''"

definition apfel :: product where
  "apfel = \<lparr>id_p = ascii ''apfel'', name = ascii ''Apfel'', category = fruits,
            unit = ascii ''kg'', kgFactor = 1, order = 1\<rparr>"

definition karotte :: product where
  "karotte = \<lparr>id_p = ascii ''karotte'', name = ascii ''Karotte'', category = vegetables,
              unit = stueck, kgFactor = 5, order = 2\<rparr>"

definition apfelAgain :: product where
  "apfelAgain = \<lparr>id_p = ascii ''apfel'', name = ascii ''Apfel'', category = fruits,
                 unit = ascii ''kg'', kgFactor = 1, order = 2\<rparr>"

definition karotteDraft :: partial_product where
  "karotteDraft =
     \<lparr>id_opt = None, name_opt = Some (ascii ''Karotte''), category_opt = Some vegetables,
      unit_opt = Some stueck, kgFactor_opt = Some 5, order_opt = None\<rparr>"

definition apfelDraft :: partial_product where
  "apfelDraft =
     \<lparr>id_opt = None, name_opt = Some (ascii ''Apfel''), category_opt = Some fruits,
      unit_opt = Some (ascii ''kg''), kgFactor_opt = Some 1, order_opt = None\<rparr>"

definition freeSample :: partial_product where
  "freeSample =
     \<lparr>id_opt = None, name_opt = Some (ascii ''Probe''), category_opt = Some fruits,
      unit_opt = Some (ascii ''Bund''), kgFactor_opt = Some 0, order_opt = None\<rparr>"

definition pageOf :: "product list \<Rightarrow> product option \<Rightarrow> partial_product \<Rightarrow> page" where
  "pageOf ps e d =
     \<lparr>products = ps, loading = False, error = None, editingProduct = e, newProduct = d\<rparr>"

definition resolves :: "product list \<Rightarrow> outcome" where
  "resolves ps = Resolved"

text \<open>
  The specification's grouping, "partition the sorted sequence into one ordered
  sub-sequence per category": a category that occurs is mapped to the products of that
  category, in the order of the sequence.
\<close>

definition partition_by_category :: "product list \<Rightarrow> (jsstring \<rightharpoonup> product list)" where
  "partition_by_category ps =
     (\<lambda>c. if c \<in> category ` set ps then Some (filter (\<lambda>p. category p = c) ps) else None)"

text \<open>The products that have a card in a view, group after group.\<close>

definition shownProducts :: "view \<Rightarrow> product list" where
  "shownProducts v =
     (case v of
        CategoryList groups \<Rightarrow> concat (map (\<lambda>g. map card_product (cards g)) groups)
      | _ \<Rightarrow> [])"

text \<open>
  Three vegetables with the names of the specification's collation example, and a record
  whose category is none of the three.
\<close>

definition oel :: product where
  "oel = \<lparr>id_p = ascii ''oel'', name = [0xD6] @ ascii ''l'', category = vegetables,
          unit = ascii ''kg'', kgFactor = 1, order = 3\<rparr>"

definition apfelVeg :: product where
  "apfelVeg = \<lparr>id_p = ascii ''apfel'', name = ascii ''Apfel'', category = vegetables,
               unit = ascii ''kg'', kgFactor = 1, order = 4\<rparr>"

definition zucchini :: product where
  "zucchini = \<lparr>id_p = ascii ''zucchini'', name = ascii ''Zucchini'', category = vegetables,
               unit = stueck, kgFactor = 0.3, order = 5\<rparr>"

definition basilikum :: product where
  "basilikum = \<lparr>id_p = ascii ''basilikum'', name = ascii ''Basilikum'',
                category = ascii ''herbs'', unit = ascii ''Bund'', kgFactor = 0.05, order = 6\<rparr>"

text \<open>A record whose category is the name of a member that every object inherits.\<close>

definition rosmarin :: product where
  "rosmarin = \<lparr>id_p = ascii ''rosmarin'', name = ascii ''Rosmarin'',
               category = ascii ''toString'', unit = ascii ''Bund'', kgFactor = 0.05, order = 7\<rparr>"

subsection \<open>Properties of the identifier\<close>

lemma second_pass_on_first:
  "replaceAllUnits (\<lambda>c. \<not> lowerAlnumClass c) (\<lambda>_. ascii ''-'')
     (if umlautClass c then transliterate c else [c]) = spec_id_unit c"
  by (simp add: replaceAllUnits_def umlautClass_def transliterate_def chars_def
      spec_id_unit_def lowerAlnumClass_def ascii_def)

lemma replaceAllUnits_append:
  "replaceAllUnits P f (xs @ ys) = replaceAllUnits P f xs @ replaceAllUnits P f ys"
  by (simp add: replaceAllUnits_def)

lemma two_passes_one_pass:
  "replaceAllUnits (\<lambda>c. \<not> lowerAlnumClass c) (\<lambda>_. ascii ''-'')
     (replaceAllUnits umlautClass transliterate s) = concat (map spec_id_unit s)"
proof (induction s)
  case Nil
  show ?case by (simp add: replaceAllUnits_def)
next
  case (Cons c s)
  have "replaceAllUnits umlautClass transliterate (c # s) =
        (if umlautClass c then transliterate c else [c]) @ replaceAllUnits umlautClass transliterate s"
    by (simp add: replaceAllUnits_def)
  then show ?case
    using Cons.IH by (simp only: replaceAllUnits_append second_pass_on_first) simp
qed

text \<open>
  Claim C3. The identifier deriver lower-cases the name, turns a-umlaut, o-umlaut,
  u-umlaut and sharp s into "ae", "oe", "ue" and "ss", and replaces every remaining code
  unit outside \<^verbatim>\<open>[a-z0-9]\<close> by one hyphen each. The name "Musli" with u-umlaut
  gives "muesli", the name "Apfel & Co." with A-umlaut gives "aepfel---co-", and the empty
  name gives the empty identifier.
\<close>

theorem derive_id_transliterates:
  "derive_id name_in = spec_derive_id name_in
   \<and> derive_id (ascii ''M'' @ [0xFC] @ ascii ''sli'') = ascii ''muesli''
   \<and> derive_id ([0xC4] @ ascii ''pfel & Co.'') = ascii ''aepfel---co-''
   \<and> derive_id [] = []"
proof -
  have general: "\<And>s. derive_id s = spec_derive_id s"
    by (simp add: derive_id_def spec_derive_id_def two_passes_one_pass)
  have muesli: "spec_derive_id (ascii ''M'' @ [0xFC] @ ascii ''sli'') = ascii ''muesli''"
    by (simp add: spec_derive_id_def toLowerCase_def lowerUnit_def spec_id_unit_def
        lowerAlnumClass_def ascii_def)
  have aepfel: "spec_derive_id ([0xC4] @ ascii ''pfel & Co.'') = ascii ''aepfel---co-''"
    by (simp add: spec_derive_id_def toLowerCase_def lowerUnit_def spec_id_unit_def
        lowerAlnumClass_def ascii_def)
  have empty: "spec_derive_id [] = []"
    by (simp add: spec_derive_id_def toLowerCase_def)
  show ?thesis
    using muesli aepfel empty by (simp add: general)
qed

lemma derive_id_ascii_examples:
  "derive_id (ascii ''Karotte'') = ascii ''karotte''"
  "derive_id (ascii ''Apfel'') = ascii ''apfel''"
  "derive_id (ascii ''Probe'') = ascii ''probe''"
  by (simp_all add: derive_id_def replaceAllUnits_def toLowerCase_def lowerUnit_def
      umlautClass_def lowerAlnumClass_def ascii_def)

subsection \<open>The coupling of unit and factor\<close>

text \<open>
  Claim C5. For the new-product draft and for the draft in edit mode alike, and whatever
  factor the draft holds: changing the unit to "kg" sets the factor to 1, and changing it
  to any other unit keeps the factor the draft held. The unit becomes the chosen one.
\<close>

theorem unit_change_couples_kgFactor:
  "kgFactor_opt (newProduct (fst (handleUnitChange (ascii ''kg'') True s))) = Some 1
   \<and> (newUnit \<noteq> ascii ''kg'' \<longrightarrow>
        kgFactor_opt (newProduct (fst (handleUnitChange newUnit True s))) =
          kgFactor_opt (newProduct s))
   \<and> unit_opt (newProduct (fst (handleUnitChange newUnit True s))) = Some newUnit
   \<and> (editingProduct s = Some d \<longrightarrow>
        map_option kgFactor (editingProduct (fst (handleUnitChange (ascii ''kg'') False s))) =
          Some 1)
   \<and> (editingProduct s = Some d \<longrightarrow> newUnit \<noteq> ascii ''kg'' \<longrightarrow>
        map_option kgFactor (editingProduct (fst (handleUnitChange newUnit False s))) =
          Some (kgFactor d))
   \<and> (editingProduct s = Some d \<longrightarrow>
        map_option unit (editingProduct (fst (handleUnitChange newUnit False s))) =
          Some newUnit)"
  by (simp add: handleUnitChange_def)

theorem unit_change_couples_kgFactor_witness:
  "kgFactor_opt (newProduct (fst (handleUnitChange (ascii ''kg'') True
      (pageOf [apfel, karotte] (Some karotte) karotteDraft)))) = Some 1
   \<and> kgFactor_opt (newProduct (fst (handleUnitChange (ascii ''Bund'') True
      (pageOf [apfel, karotte] (Some karotte) karotteDraft)))) = Some 5
   \<and> map_option kgFactor (editingProduct (fst (handleUnitChange (ascii ''kg'') False
      (pageOf [apfel, karotte] (Some karotte) karotteDraft)))) = Some 1
   \<and> map_option kgFactor (editingProduct (fst (handleUnitChange (ascii ''Bund'') False
      (pageOf [apfel, karotte] (Some karotte) karotteDraft)))) = Some 5"
  using unit_change_couples_kgFactor
    [of "pageOf [apfel, karotte] (Some karotte) karotteDraft" "ascii ''Bund''" karotte]
  by (simp add: pageOf_def karotteDraft_def karotte_def ascii_def)

subsection \<open>Adding a product\<close>

text \<open>
  Claim C6. A draft whose name, category and unit are present (defined and not empty)
  and whose factor is 0 passes the condition of the handler: the collection with the new
  record is handed to the store. When the name, the category or the unit is missing, or
  the factor is undefined, the handler does nothing: no call and no change of state.
\<close>

theorem zero_kgFactor_is_submitted:
  "(name_opt (newProduct s) = Some n \<and> n \<noteq> []
      \<and> category_opt (newProduct s) = Some c \<and> c \<noteq> []
      \<and> unit_opt (newProduct s) = Some u \<and> u \<noteq> []
      \<and> kgFactor_opt (newProduct s) = Some 0
    \<longrightarrow> snd (handleAddProduct saveProducts s) =
          [SaveScrollPosition,
           SaveProducts (products s @
             [\<lparr>id_p = derive_id n, name = n, category = c, unit = u, kgFactor = 0,
               order = real (length (products s)) + 1\<rparr>])])
   \<and> (name_opt (newProduct s) = None \<or> name_opt (newProduct s) = Some []
      \<or> category_opt (newProduct s) = None \<or> category_opt (newProduct s) = Some []
      \<or> unit_opt (newProduct s) = None \<or> unit_opt (newProduct s) = Some []
      \<or> kgFactor_opt (newProduct s) = None
    \<longrightarrow> handleAddProduct saveProducts s = (s, []))"
  by (auto simp add: handleAddProduct_def Let_def split: option.splits)

theorem zero_kgFactor_is_submitted_witness:
  "snd (handleAddProduct resolves (pageOf [apfel] None freeSample)) =
     [SaveScrollPosition,
      SaveProducts [apfel, \<lparr>id_p = ascii ''probe'', name = ascii ''Probe'', category = fruits,
                            unit = ascii ''Bund'', kgFactor = 0, order = 2\<rparr>]]
   \<and> handleAddProduct resolves (pageOf [apfel] None (freeSample\<lparr>kgFactor_opt := None\<rparr>)) =
       (pageOf [apfel] None (freeSample\<lparr>kgFactor_opt := None\<rparr>), [])"
  using zero_kgFactor_is_submitted
      [of "pageOf [apfel] None freeSample" "ascii ''Probe''" fruits "ascii ''Bund''" resolves]
    zero_kgFactor_is_submitted
      [of "pageOf [apfel] None (freeSample\<lparr>kgFactor_opt := None\<rparr>)" "ascii ''Probe''" fruits
        "ascii ''Bund''" resolves]
  by (simp add: pageOf_def freeSample_def derive_id_ascii_examples) (simp add: ascii_def)

text \<open>
  Claim C7. When the draft passes the condition of the handler, the collection handed to
  the store is the current one with one record appended: its id derived from the entered
  name, its order the size of the collection plus one, the other fields those of the
  draft. Adding "Karotte" to the collection that holds only the record "apfel" persists
  both records, the new one with id "karotte" and order 2.
\<close>

theorem add_appends_one_record:
  "(name_opt (newProduct s) = Some n \<and> n \<noteq> []
      \<and> category_opt (newProduct s) = Some c \<and> c \<noteq> []
      \<and> unit_opt (newProduct s) = Some u \<and> u \<noteq> []
      \<and> kgFactor_opt (newProduct s) = Some k
    \<longrightarrow> persisted (snd (handleAddProduct saveProducts s)) =
          [products s @
             [\<lparr>id_p = derive_id n, name = n, category = c, unit = u, kgFactor = k,
               order = real (length (products s)) + 1\<rparr>]])
   \<and> persisted (snd (handleAddProduct saveProducts (pageOf [apfel] e karotteDraft))) =
       [[apfel, karotte]]
   \<and> id_p karotte = ascii ''karotte'' \<and> order karotte = 2"
proof -
  have general:
    "name_opt (newProduct s) = Some n \<and> n \<noteq> []
      \<and> category_opt (newProduct s) = Some c \<and> c \<noteq> []
      \<and> unit_opt (newProduct s) = Some u \<and> u \<noteq> []
      \<and> kgFactor_opt (newProduct s) = Some k
    \<longrightarrow> persisted (snd (handleAddProduct saveProducts s)) =
          [products s @
             [\<lparr>id_p = derive_id n, name = n, category = c, unit = u, kgFactor = k,
               order = real (length (products s)) + 1\<rparr>]]"
    by (simp add: handleAddProduct_def Let_def)
  have example:
    "persisted (snd (handleAddProduct saveProducts (pageOf [apfel] e karotteDraft))) =
       [[apfel, karotte]]"
    by (simp add: handleAddProduct_def Let_def pageOf_def karotteDraft_def karotte_def
        derive_id_ascii_examples) (simp add: ascii_def)
  have fields: "id_p karotte = ascii ''karotte'' \<and> order karotte = 2"
    by (simp add: karotte_def)
  show ?thesis
    by (intro conjI general example fields [THEN conjunct1] fields [THEN conjunct2])
qed

theorem add_appends_one_record_witness:
  "persisted (snd (handleAddProduct resolves (pageOf [apfel, karotte] None freeSample))) =
     [[apfel, karotte, \<lparr>id_p = ascii ''probe'', name = ascii ''Probe'', category = fruits,
                        unit = ascii ''Bund'', kgFactor = 0, order = 3\<rparr>]]"
  using add_appends_one_record
    [of "pageOf [apfel, karotte] None freeSample" "ascii ''Probe''" fruits "ascii ''Bund''" 0
      resolves]
  by (simp add: pageOf_def freeSample_def derive_id_ascii_examples) (simp add: ascii_def)

subsection \<open>Deleting a product\<close>

lemma filter_other_ids_remove1:
  "distinct (map f xs) \<Longrightarrow> p \<in> set xs \<Longrightarrow> filter (\<lambda>q. f q \<noteq> f p) xs = remove1 p xs"
proof (induction xs)
  case Nil
  then show ?case by simp
next
  case (Cons x xs)
  show ?case
  proof (cases "x = p")
    case True
    with Cons.prems have "f p \<notin> f ` set xs" by simp
    then have "\<forall>q\<in>set xs. f q \<noteq> f p" by (auto simp: image_iff)
    then have "filter (\<lambda>q. f q \<noteq> f p) xs = xs" by (simp add: filter_id_conv)
    with True show ?thesis by simp
  next
    case False
    with Cons.prems have "p \<in> set xs" and "f x \<noteq> f p" and "distinct (map f xs)"
      by auto
    with Cons.IH False show ?thesis by simp
  qed
qed

text \<open>
  Claim C2, as amended. The confirmed delete hands to the store the collection without
  the records whose id is the given one; the remaining records are the same, in the same
  order, and the state of the page is untouched. When the ids of the collection are
  pairwise distinct and the id is that of a record, exactly that one record is removed.
  Without the confirmation nothing is persisted.
\<close>

theorem delete_removes_records_of_id:
  "persisted (snd (handleDeleteProduct True productId s)) =
     [filter (\<lambda>p. id_p p \<noteq> productId) (products s)]
   \<and> fst (handleDeleteProduct True productId s) = s
   \<and> (distinct (map id_p (products s)) \<and> p \<in> set (products s) \<longrightarrow>
        persisted (snd (handleDeleteProduct True (id_p p) s)) = [remove1 p (products s)]
        \<and> length (remove1 p (products s)) + 1 = length (products s))
   \<and> handleDeleteProduct False productId s = (s, [])"
proof -
  have removed: "distinct (map id_p (products s)) \<and> p \<in> set (products s) \<longrightarrow>
        persisted (snd (handleDeleteProduct True (id_p p) s)) = [remove1 p (products s)]
        \<and> length (remove1 p (products s)) + 1 = length (products s)"
  proof (intro impI, elim conjE)
    assume d: "distinct (map id_p (products s))" and m: "p \<in> set (products s)"
    have "filter (\<lambda>q. id_p q \<noteq> id_p p) (products s) = remove1 p (products s)"
      using d m by (rule filter_other_ids_remove1)
    moreover have "length (remove1 p (products s)) + 1 = length (products s)"
      using m by (simp add: length_remove1) (cases "products s", auto)
    ultimately show "persisted (snd (handleDeleteProduct True (id_p p) s)) = [remove1 p (products s)]
        \<and> length (remove1 p (products s)) + 1 = length (products s)"
      by (simp add: handleDeleteProduct_def)
  qed
  show ?thesis
    using removed by (simp add: handleDeleteProduct_def)
qed

theorem delete_removes_records_of_id_witness:
  "persisted (snd (handleDeleteProduct True (ascii ''apfel'') (pageOf [apfel, karotte] None initialNewProduct)))
     = [[karotte]]"
proof -
  have pre: "distinct (map id_p (products (pageOf [apfel, karotte] None initialNewProduct)))
      \<and> apfel \<in> set (products (pageOf [apfel, karotte] None initialNewProduct))"
    by (simp add: pageOf_def apfel_def karotte_def ascii_def)
  have "persisted (snd (handleDeleteProduct True (id_p apfel) (pageOf [apfel, karotte] None initialNewProduct)))
      = [remove1 apfel (products (pageOf [apfel, karotte] None initialNewProduct))]"
    using delete_removes_records_of_id [of "ascii ''apfel''" "pageOf [apfel, karotte] None initialNewProduct" apfel] pre
    by blast
  then show ?thesis by (simp add: pageOf_def apfel_def)
qed

text \<open>
  The claim C2 as stated fails on a collection in which two records share an id. Such a
  collection arises on the page itself: adding the name "Apfel" to a collection that
  holds "apfel" persists a second record with the id "apfel". Deleting that id then
  persists the empty collection: two records are removed, not one.
\<close>

theorem delete_exactly_one_counterexample:
  "persisted (snd (handleAddProduct resolves (pageOf [apfel] None apfelDraft))) = [[apfel, apfelAgain]]
   \<and> persisted (snd (handleDeleteProduct True (id_p apfel) (pageOf [apfel, apfelAgain] None initialNewProduct))) = [[]]
   \<and> length (products (pageOf [apfel, apfelAgain] None initialNewProduct)) = 2"
  by (simp add: handleAddProduct_def Let_def handleDeleteProduct_def pageOf_def apfelDraft_def
      apfelAgain_def apfel_def derive_id_ascii_examples) (simp add: ascii_def)

subsection \<open>Editing a product\<close>

lemma applyEdit_keeps_id:
  "map_option id_p (editingProduct (applyEdit a s)) = map_option id_p (editingProduct s)"
  by (cases a)
    (simp_all add: onChangeEditName_def onChangeEditCategory_def onChangeEditKgFactor_def
      handleUnitChange_def option.map_comp comp_def split: option.splits)

lemma edits_keep_id:
  "map_option id_p (editingProduct (fold applyEdit actions s)) = map_option id_p (editingProduct s)"
  by (induction actions arbitrary: s) (simp_all add: applyEdit_keeps_id)

text \<open>
  Claim C9. Saving hands to the store the collection in which every record with the id
  of the draft is the draft, and every other record is the one it was. The id of the
  draft is the id of the product that entered edit mode, whatever is then done in the
  form. Cancelling clears the draft and calls nothing.
\<close>

theorem save_edit_replaces_by_id:
  "(editingProduct s = Some d \<longrightarrow>
      persisted (snd (handleSaveEdit saveProducts s)) =
        [map (\<lambda>p. if id_p p = id_p d then d else p) (products s)])
   \<and> map_option id_p (editingProduct (fold applyEdit actions (fst (handleEditProduct p s)))) =
       Some (id_p p)
   \<and> editingProduct (fst (handleCancelEdit s)) = None
   \<and> persisted (snd (handleCancelEdit s)) = []"
  by (simp add: handleSaveEdit_def Let_def edits_keep_id handleEditProduct_def handleCancelEdit_def)

theorem save_edit_replaces_by_id_witness:
  "persisted (snd (handleSaveEdit resolves
      (pageOf [apfel, karotte] (Some (karotte\<lparr>name := ascii ''Moehre'', kgFactor := 4\<rparr>)) initialNewProduct))) =
     [[apfel, karotte\<lparr>name := ascii ''Moehre'', kgFactor := 4\<rparr>]]"
  using save_edit_replaces_by_id
    [of "pageOf [apfel, karotte] (Some (karotte\<lparr>name := ascii ''Moehre'', kgFactor := 4\<rparr>)) initialNewProduct"
        "karotte\<lparr>name := ascii ''Moehre'', kgFactor := 4\<rparr>" resolves]
  by (simp add: pageOf_def apfel_def karotte_def ascii_def)

text \<open>
  Claim C10. When no record of the collection has the id of the draft, saving hands the
  collection itself to the store, and the draft is cleared once the store has accepted
  it.
\<close>

theorem save_edit_of_vanished_product:
  assumes "editingProduct s = Some d"
    and "\<forall>p\<in>set (products s). id_p p \<noteq> id_p d"
  shows "persisted (snd (handleSaveEdit saveProducts s)) = [products s]
    \<and> (saveProducts (products s) = Resolved \<longrightarrow>
         editingProduct (fst (handleSaveEdit saveProducts s)) = None)"
proof -
  have "map (\<lambda>p. if id_p p = id_p d then d else p) (products s) = products s"
    using assms(2) by (simp add: map_idI)
  with assms(1) show ?thesis
    by (simp add: handleSaveEdit_def Let_def)
qed

theorem save_edit_of_vanished_product_witness:
  "persisted (snd (handleSaveEdit resolves (pageOf [apfel] (Some karotte) initialNewProduct))) = [[apfel]]
   \<and> editingProduct (fst (handleSaveEdit resolves (pageOf [apfel] (Some karotte) initialNewProduct))) = None"
proof -
  have e: "editingProduct (pageOf [apfel] (Some karotte) initialNewProduct) = Some karotte"
    by (simp add: pageOf_def)
  have v: "\<forall>p\<in>set (products (pageOf [apfel] (Some karotte) initialNewProduct)). id_p p \<noteq> id_p karotte"
    by (simp add: pageOf_def apfel_def karotte_def ascii_def)
  show ?thesis
    using save_edit_of_vanished_product [OF e v, of resolves]
    by (simp add: pageOf_def resolves_def)
qed

subsection \<open>The order of the displayed sequence\<close>

lemma insertSorted_insort_key:
  "\<forall>y\<in>set ys. (cmp x y \<le> 0) = (f x \<le> f y) \<Longrightarrow> insertSorted cmp x ys = insort_key f x ys"
  by (induction ys) simp_all

lemma arraySort_sort_key:
  "\<forall>x\<in>set xs. \<forall>y\<in>set xs. (sortCompare cmp x y \<le> 0) = (f x \<le> f y) \<Longrightarrow>
     arraySort cmp xs = sort_key f xs"
proof (induction xs)
  case Nil
  show ?case by (simp add: arraySort_def)
next
  case (Cons x xs)
  have ih: "arraySort cmp xs = sort_key f xs"
    using Cons by simp
  have "\<forall>y\<in>set (sort_key f xs). (sortCompare cmp x y \<le> 0) = (f x \<le> f y)"
    using Cons.prems by simp
  then have "insertSorted (sortCompare cmp) x (sort_key f xs) = insort_key f x (sort_key f xs)"
    by (rule insertSorted_insort_key)
  with ih show ?case
    by (simp add: arraySort_def)
qed

lemma categories_differ:
  "fruits \<noteq> vegetables" "fruits \<noteq> salads" "vegetables \<noteq> salads"
  by (simp_all add: ascii_def)

lemma compare_is_key_order:
  fixes ck :: "jsstring \<Rightarrow> 'k::linorder"
  assumes "\<forall>a b. (localeCompare a b \<le> 0) = (ck a \<le> ck b)"
    and "typed a" and "typed b"
  shows "(sortCompare (compareProducts localeCompare) a b \<le> 0) =
         (composite_key ck a \<le> composite_key ck b)"
proof (cases "category a = category b")
  case True
  with assms(1) show ?thesis
    by (simp add: sortCompare_def compareProducts_def composite_key_def)
next
  case False
  have ra: "map_of categoryOrder (category a) = Some (category_rank (category a))"
    using assms(2) categories_differ by (auto simp: typed_def categoryOrder_def category_rank_def)
  have rb: "map_of categoryOrder (category b) = Some (category_rank (category b))"
    using assms(3) categories_differ by (auto simp: typed_def categoryOrder_def category_rank_def)
  have ne: "category_rank (category a) \<noteq> category_rank (category b)"
    using False assms(2,3) categories_differ by (auto simp: typed_def category_rank_def)
  show ?thesis
    using False ra rb ne
    by (auto simp: sortCompare_def compareProducts_def composite_key_def)
qed

lemma sortedProducts_sort_key:
  fixes ck :: "jsstring \<Rightarrow> 'k::linorder"
  assumes "\<forall>a b. (localeCompare a b \<le> 0) = (ck a \<le> ck b)"
    and "\<forall>p\<in>set ps. typed p"
  shows "sortedProducts localeCompare ps = sort_key (composite_key ck) ps"
  unfolding sortedProducts_def
  by (rule arraySort_sort_key) (simp add: compare_is_key_order [OF assms(1)] assms(2))

lemma same_category_three:
  fixes ck :: "jsstring \<Rightarrow> 'k::linorder"
  assumes "\<forall>a b. (localeCompare a b \<le> 0) = (ck a \<le> ck b)"
    and "category x = category y" and "category z = category y"
    and "ck (name x) < ck (name y)" and "ck (name y) < ck (name z)"
  shows "sortedProducts localeCompare [y, x, z] = [x, y, z]"
proof -
  have "ck (name x) < ck (name z)" using assms(4,5) by (rule less_trans)
  then show ?thesis
    using assms
    by (simp add: sortedProducts_def arraySort_def sortCompare_def compareProducts_def not_le
        less_imp_le)
qed

lemma sampleCompare_by_key: "\<forall>a b. (sampleCompare a b \<le> 0) = (sampleKey a \<le> sampleKey b)"
  by (auto simp: sampleCompare_def)

text \<open>
  Claim C4. For a collection of records whose categories are among the three of the type
  \<^verbatim>\<open>Product\<close>, and a collation that orders names by a collation key, the displayed
  sequence is the stable sort of the collection by the composite key: it is a
  rearrangement of the collection, ascending in (rank of the category, collation key of
  the name), and records with the same key keep their original order. Within one
  category the names "Ol" (with O-umlaut), "Apfel", "Zucchini" come out in the order
  Apfel, Ol, Zucchini when the collation files them so, as the German one does.
\<close>

theorem sortedProducts_stable_by_category_and_name:
  fixes ck :: "jsstring \<Rightarrow> 'k::linorder"
  assumes "\<forall>a b. (localeCompare a b \<le> 0) = (ck a \<le> ck b)"
    and "\<forall>p\<in>set ps. typed p"
  shows "sortedProducts localeCompare ps = sort_key (composite_key ck) ps
    \<and> mset (sortedProducts localeCompare ps) = mset ps
    \<and> sorted (map (composite_key ck) (sortedProducts localeCompare ps))
    \<and> (\<forall>k. filter (\<lambda>p. composite_key ck p = k) (sortedProducts localeCompare ps) =
             filter (\<lambda>p. composite_key ck p = k) ps)
    \<and> (category x = category y \<and> category z = category y
        \<and> name y = [0xD6] @ ascii ''l'' \<and> name x = ascii ''Apfel'' \<and> name z = ascii ''Zucchini''
        \<and> ck (ascii ''Apfel'') < ck ([0xD6] @ ascii ''l'')
        \<and> ck ([0xD6] @ ascii ''l'') < ck (ascii ''Zucchini'')
        \<longrightarrow> sortedProducts localeCompare [y, x, z] = [x, y, z])"
proof -
  have eq: "sortedProducts localeCompare ps = sort_key (composite_key ck) ps"
    using assms by (rule sortedProducts_sort_key)
  have perm: "mset (sortedProducts localeCompare ps) = mset ps"
    by (simp add: eq)
  have ordered: "sorted (map (composite_key ck) (sortedProducts localeCompare ps))"
    by (simp add: eq)
  have stable: "\<forall>k. filter (\<lambda>p. composite_key ck p = k) (sortedProducts localeCompare ps) =
             filter (\<lambda>p. composite_key ck p = k) ps"
    by (simp add: eq sort_key_stable)
  have example: "category x = category y \<and> category z = category y
        \<and> name y = [0xD6] @ ascii ''l'' \<and> name x = ascii ''Apfel'' \<and> name z = ascii ''Zucchini''
        \<and> ck (ascii ''Apfel'') < ck ([0xD6] @ ascii ''l'')
        \<and> ck ([0xD6] @ ascii ''l'') < ck (ascii ''Zucchini'')
        \<longrightarrow> sortedProducts localeCompare [y, x, z] = [x, y, z]"
  proof (intro impI, elim conjE)
    assume "category x = category y" "category z = category y"
      "name y = [0xD6] @ ascii ''l''" "name x = ascii ''Apfel''" "name z = ascii ''Zucchini''"
      "ck (ascii ''Apfel'') < ck ([0xD6] @ ascii ''l'')"
      "ck ([0xD6] @ ascii ''l'') < ck (ascii ''Zucchini'')"
    then show "sortedProducts localeCompare [y, x, z] = [x, y, z]"
      using same_category_three [OF assms(1), of x y z] by simp
  qed
  show ?thesis
    by (intro conjI eq perm ordered stable example)
qed

lemma sample_keys:
  "sampleKey (ascii ''Apfel'') < sampleKey ([0xD6] @ ascii ''l'')"
  "sampleKey ([0xD6] @ ascii ''l'') < sampleKey (ascii ''Zucchini'')"
  by (simp_all add: sampleKey_def toLowerCase_def lowerUnit_def baseLetter_def ascii_def)

theorem sortedProducts_stable_by_category_and_name_witness:
  "sortedProducts sampleCompare [zucchini, oel, apfel, apfelVeg] = [apfel, apfelVeg, oel, zucchini]
   \<and> sortedProducts sampleCompare [oel, apfelVeg, zucchini] = [apfelVeg, oel, zucchini]"
proof -
  have t: "\<forall>p\<in>set [zucchini, oel, apfel, apfelVeg]. typed p"
    by (simp add: typed_def zucchini_def oel_def apfel_def apfelVeg_def)
  have e: "category apfelVeg = category oel \<and> category zucchini = category oel
        \<and> name oel = [0xD6] @ ascii ''l'' \<and> name apfelVeg = ascii ''Apfel''
        \<and> name zucchini = ascii ''Zucchini''"
    by (simp add: zucchini_def oel_def apfelVeg_def)
  have k: "sort_key (composite_key sampleKey) [zucchini, oel, apfel, apfelVeg] =
           [apfel, apfelVeg, oel, zucchini]"
    by (simp add: composite_key_def category_rank_def sampleKey_def toLowerCase_def
        lowerUnit_def baseLetter_def zucchini_def oel_def apfel_def apfelVeg_def ascii_def)
  show ?thesis
    using sortedProducts_stable_by_category_and_name
      [OF sampleCompare_by_key t, of apfelVeg oel zucchini] e sample_keys k
    by simp
qed

subsection \<open>The groups and the rendered categories\<close>

lemma mset_insertSorted: "mset (insertSorted cmp x ys) = add_mset x (mset ys)"
  by (induction ys) simp_all

lemma mset_arraySort: "mset (arraySort cmp xs) = mset xs"
  by (induction xs) (simp_all add: arraySort_def mset_insertSorted)

lemma set_sortedProducts: "set (sortedProducts localeCompare ps) = set ps"
  unfolding sortedProducts_def by (metis mset_arraySort set_mset_mset)

lemma groupStep_Inr:
  "groupStep acc p = Inr acc' \<Longrightarrow>
     acc' = acc(category p \<mapsto> (case acc (category p) of None \<Rightarrow> [p] | Some ps \<Rightarrow> ps @ [p]))"
  by (auto simp: groupStep_def split: option.splits if_splits)

lemma groupStep_no_inherited:
  "category p \<notin> set objectPrototypeKeys \<Longrightarrow> \<exists>acc'. groupStep acc p = Inr acc'"
  by (simp add: groupStep_def split: option.splits)

lemma reduceGroups_Inr:
  "reduceGroups acc ps = Inr g \<Longrightarrow>
     g c = (case acc c of
              Some old \<Rightarrow> Some (old @ filter (\<lambda>p. category p = c) ps)
            | None \<Rightarrow> if c \<in> category ` set ps then Some (filter (\<lambda>p. category p = c) ps)
                      else None)"
proof (induction ps arbitrary: acc)
  case Nil
  then show ?case by (simp split: option.splits)
next
  case (Cons p ps)
  from Cons.prems obtain acc' where step: "groupStep acc p = Inr acc'"
    and rest: "reduceGroups acc' ps = Inr g"
    by (auto split: sum.splits)
  note acc' = groupStep_Inr [OF step]
  show ?case
  proof (cases "c = category p")
    case True
    then show ?thesis
      using Cons.IH [OF rest] acc' by (simp split: option.splits)
  next
    case False
    then have "acc' c = acc c" using acc' by simp
    with False show ?thesis
      using Cons.IH [OF rest] by (auto split: option.splits)
  qed
qed

lemma reduceGroups_no_inherited:
  "\<forall>p\<in>set ps. category p \<notin> set objectPrototypeKeys \<Longrightarrow> \<exists>g. reduceGroups acc ps = Inr g"
proof (induction ps arbitrary: acc)
  case Nil
  show ?case by simp
next
  case (Cons p ps)
  then obtain acc' where "groupStep acc p = Inr acc'"
    using groupStep_no_inherited [of p acc] by auto
  with Cons show ?case by simp
qed

lemma groupedProducts_Inr:
  "groupedProducts localeCompare ps = Inr g \<Longrightarrow>
     g = partition_by_category (sortedProducts localeCompare ps)"
  unfolding groupedProducts_def partition_by_category_def
  by (rule ext) (simp add: reduceGroups_Inr)

lemma groupedProducts_no_inherited:
  assumes "\<forall>p\<in>set ps. category p \<notin> set objectPrototypeKeys"
  shows "groupedProducts localeCompare ps = Inr (partition_by_category (sortedProducts localeCompare ps))"
proof -
  have "\<forall>p\<in>set (sortedProducts localeCompare ps). category p \<notin> set objectPrototypeKeys"
    using assms by (simp add: set_sortedProducts)
  then obtain g where "groupedProducts localeCompare ps = Inr g"
    unfolding groupedProducts_def using reduceGroups_no_inherited by blast
  then show ?thesis
    using groupedProducts_Inr by blast
qed

lemma dom_partition_by_category: "dom (partition_by_category ps) = category ` set ps"
  by (auto simp: partition_by_category_def dom_def)

lemma typed_not_inherited: "typed p \<Longrightarrow> category p \<notin> set objectPrototypeKeys"
  by (auto simp: typed_def objectPrototypeKeys_def ascii_def)

lemma filter_absent_category:
  "c \<notin> category ` set xs \<Longrightarrow> filter (\<lambda>p. category p = c) xs = []"
  by (auto simp: filter_empty_conv)

lemma cards_renderGroup:
  "map card_product (cards (renderGroup s (partition_by_category xs) c)) =
     filter (\<lambda>p. category p = c) xs"
  by (simp add: renderGroup_def partition_by_category_def comp_def filter_absent_category)

lemma key_renderGroup: "group_key (renderGroup s grouped c) = c"
  by (simp add: renderGroup_def)

lemma render_CategoryList:
  "render localeCompare s = Inr (CategoryList groups) \<Longrightarrow>
     groups = map (renderGroup s (partition_by_category (sortedProducts localeCompare (products s))))
                [fruits, vegetables, salads]"
  by (auto simp: render_def categoryNames_def split: if_splits option.splits list.splits sum.splits
      dest: groupedProducts_Inr)

lemma render_other_views:
  "render localeCompare s = Inr v \<Longrightarrow> (\<exists>groups. v = CategoryList groups) \<or> shownProducts v = []"
  by (auto simp: render_def shownProducts_def split: if_splits option.splits list.splits sum.splits)

lemma render_loaded:
  assumes "\<not> loading s" and "error s = None \<or> error s = Some []"
    and "\<forall>p\<in>set (products s). category p \<notin> set objectPrototypeKeys"
  shows "render localeCompare s =
     Inr (CategoryList
       (map (renderGroup s (partition_by_category (sortedProducts localeCompare (products s))))
          [fruits, vegetables, salads]))"
  using assms(1,2) groupedProducts_no_inherited [OF assms(3), of localeCompare]
  by (auto simp: render_def categoryNames_def)

lemma shown_of_groups:
  "set (shownProducts (CategoryList
       [renderGroup s (partition_by_category xs) fruits,
        renderGroup s (partition_by_category xs) vegetables,
        renderGroup s (partition_by_category xs) salads])) =
   {p \<in> set xs. typed p}"
  by (auto simp: shownProducts_def cards_renderGroup typed_def)

lemma groupStep_inherited:
  "acc (category p) = None \<Longrightarrow> category p \<in> set objectPrototypeKeys \<Longrightarrow>
     groupStep acc p = Inl TypeError"
  by (simp add: groupStep_def)

lemma reduceGroups_inherited:
  "dom acc \<inter> set objectPrototypeKeys = {} \<Longrightarrow>
   \<exists>p\<in>set ps. category p \<in> set objectPrototypeKeys \<Longrightarrow>
     reduceGroups acc ps = Inl TypeError"
proof (induction ps arbitrary: acc)
  case Nil
  then show ?case by simp
next
  case (Cons p ps)
  show ?case
  proof (cases "category p \<in> set objectPrototypeKeys")
    case True
    with Cons.prems(1) have "acc (category p) = None"
      by (auto simp: dom_def)
    then show ?thesis
      using True by (simp add: groupStep_inherited)
  next
    case False
    then obtain acc' where step: "groupStep acc p = Inr acc'"
      using groupStep_no_inherited by blast
    have "dom acc' \<subseteq> insert (category p) (dom acc)"
      using groupStep_Inr [OF step] by (auto split: if_splits)
    with False Cons.prems(1) have d: "dom acc' \<inter> set objectPrototypeKeys = {}"
      by blast
    from False Cons.prems(2) have "\<exists>q\<in>set ps. category q \<in> set objectPrototypeKeys"
      by auto
    with d have "reduceGroups acc' ps = Inl TypeError"
      by (rule Cons.IH)
    with step show ?thesis by simp
  qed
qed

lemma groupedProducts_inherited:
  assumes "\<exists>p\<in>set ps. category p \<in> set objectPrototypeKeys"
  shows "groupedProducts localeCompare ps = Inl TypeError"
proof -
  have "\<exists>p\<in>set (sortedProducts localeCompare ps). category p \<in> set objectPrototypeKeys"
    using assms by (simp add: set_sortedProducts)
  then show ?thesis
    unfolding groupedProducts_def by (intro reduceGroups_inherited) simp_all
qed

lemma render_inherited:
  assumes "\<not> loading s" and "error s = None \<or> error s = Some []"
    and "\<exists>p\<in>set (products s). category p \<in> set objectPrototypeKeys"
  shows "render localeCompare s = Inl TypeError"
  using assms(1,2) groupedProducts_inherited [OF assms(3), of localeCompare]
  by (auto simp: render_def)

text \<open>
  Claim C8, as amended. Whenever the list is rendered, its groups are those of the three
  fixed categories and the products with a card in them are exactly the records whose
  category is one of the three, so a product with any other category has no card. When
  no category of the collection is the name of a member that every object inherits, the
  loaded page is rendered, and such a product is silently absent. When some category is
  such a name, the grouping raises a \<^verbatim>\<open>TypeError\<close> and no list is rendered.
\<close>

theorem unknown_category_absent_or_raises:
  "(\<forall>groups. render localeCompare s = Inr (CategoryList groups) \<longrightarrow>
       map group_key groups = [fruits, vegetables, salads]
       \<and> set (shownProducts (CategoryList groups)) = {p \<in> set (products s). typed p})
   \<and> (\<not> typed q \<longrightarrow> (\<forall>v. render localeCompare s = Inr v \<longrightarrow> q \<notin> set (shownProducts v)))
   \<and> (\<not> loading s \<and> (error s = None \<or> error s = Some [])
       \<and> (\<forall>p\<in>set (products s). category p \<notin> set objectPrototypeKeys)
       \<longrightarrow> (\<exists>groups. render localeCompare s = Inr (CategoryList groups)))
   \<and> (\<not> loading s \<and> (error s = None \<or> error s = Some [])
       \<and> (\<exists>p\<in>set (products s). category p \<in> set objectPrototypeKeys)
       \<longrightarrow> render localeCompare s = Inl TypeError)"
proof -
  have shown: "map group_key groups = [fruits, vegetables, salads]
       \<and> set (shownProducts (CategoryList groups)) = {p \<in> set (products s). typed p}"
    if "render localeCompare s = Inr (CategoryList groups)" for groups
    using render_CategoryList [OF that]
    by (simp add: key_renderGroup shown_of_groups set_sortedProducts)
  have absent: "q \<notin> set (shownProducts v)"
    if "\<not> typed q" and "render localeCompare s = Inr v" for v
  proof -
    from render_other_views [OF that(2)] show ?thesis
    proof
      assume "\<exists>groups. v = CategoryList groups"
      then obtain groups where v: "v = CategoryList groups" ..
      with that(2) shown have "set (shownProducts v) = {p \<in> set (products s). typed p}"
        by simp
      with that(1) show ?thesis by simp
    next
      assume "shownProducts v = []"
      then show ?thesis by simp
    qed
  qed
  have rendered: "\<not> loading s \<and> (error s = None \<or> error s = Some [])
       \<and> (\<forall>p\<in>set (products s). category p \<notin> set objectPrototypeKeys)
       \<longrightarrow> (\<exists>groups. render localeCompare s = Inr (CategoryList groups))"
    using render_loaded by blast
  have raised: "\<not> loading s \<and> (error s = None \<or> error s = Some [])
       \<and> (\<exists>p\<in>set (products s). category p \<in> set objectPrototypeKeys)
       \<longrightarrow> render localeCompare s = Inl TypeError"
    using render_inherited by blast
  show ?thesis
    using shown absent rendered raised by blast
qed

theorem unknown_category_absent_or_raises_witness:
  "(\<exists>groups. render sampleCompare (pageOf [basilikum, karotte, apfel] None initialNewProduct) =
       Inr (CategoryList groups)
     \<and> map group_key groups = [fruits, vegetables, salads]
     \<and> basilikum \<notin> set (shownProducts (CategoryList groups)))
   \<and> render sampleCompare (pageOf [karotte, rosmarin] None initialNewProduct) = Inl TypeError"
proof -
  let ?s = "pageOf [basilikum, karotte, apfel] None initialNewProduct"
  let ?r = "pageOf [karotte, rosmarin] None initialNewProduct"
  have u: "\<not> typed basilikum"
    by (simp add: typed_def basilikum_def ascii_def)
  have l: "\<not> loading ?s \<and> (error ?s = None \<or> error ?s = Some [])
      \<and> (\<forall>p\<in>set (products ?s). category p \<notin> set objectPrototypeKeys)"
    by (simp add: pageOf_def basilikum_def karotte_def apfel_def objectPrototypeKeys_def ascii_def)
  have i: "\<not> loading ?r \<and> (error ?r = None \<or> error ?r = Some [])
      \<and> (\<exists>p\<in>set (products ?r). category p \<in> set objectPrototypeKeys)"
    by (simp add: pageOf_def rosmarin_def objectPrototypeKeys_def)
  note t = unknown_category_absent_or_raises [of sampleCompare ?s basilikum]
  from t [THEN conjunct2, THEN conjunct2, THEN conjunct1, THEN mp, OF l]
  obtain groups where r: "render sampleCompare ?s = Inr (CategoryList groups)" ..
  from t [THEN conjunct1, rule_format, OF r]
  have k: "map group_key groups = [fruits, vegetables, salads]" ..
  from t [THEN conjunct2, THEN conjunct1, rule_format, OF u r]
  have a: "basilikum \<notin> set (shownProducts (CategoryList groups))" .
  from r k a have first: "\<exists>groups. render sampleCompare ?s = Inr (CategoryList groups)
     \<and> map group_key groups = [fruits, vegetables, salads]
     \<and> basilikum \<notin> set (shownProducts (CategoryList groups))"
    by (intro exI conjI)
  from unknown_category_absent_or_raises [of sampleCompare ?r basilikum,
      THEN conjunct2, THEN conjunct2, THEN conjunct2, THEN mp, OF i]
  have second: "render sampleCompare ?r = Inl TypeError" .
  from first second show ?thesis by (rule conjI)
qed

text \<open>
  The claim C8 as stated fails for a product whose category is "toString", which is none
  of the three: reading \<^verbatim>\<open>acc[product.category]\<close> finds the inherited function, no
  array is stored, and the call of \<^verbatim>\<open>push\<close> raises. The page with this product is not
  rendered at all, instead of being rendered without it.
\<close>

theorem unknown_category_silently_absent_counterexample:
  "\<not> typed rosmarin
   \<and> render sampleCompare (pageOf [apfel, rosmarin] None initialNewProduct) = Inl TypeError"
  by (simp add: typed_def render_def pageOf_def groupedProducts_def sortedProducts_def
      arraySort_def sortCompare_def compareProducts_def categoryOrder_def groupStep_def
      apfel_def rosmarin_def objectPrototypeKeys_def ascii_def)

lemma cards_of_rendered_groups:
  "render localeCompare s = Inr (CategoryList groups) \<Longrightarrow>
     map (\<lambda>g. map card_product (cards g)) groups =
       map (\<lambda>c. filter (\<lambda>p. category p = c) (sortedProducts localeCompare (products s)))
         [fruits, vegetables, salads]"
  by (drule render_CategoryList) (simp add: cards_renderGroup)

text \<open>
  Claim C1, as amended. The grouping has a key exactly for the categories that occur in
  the collection, each with the products of that category in sorted order; a category
  without a product has no key. Whenever the list is rendered it consists of three
  groups, keyed fruits, vegetables, salads in this order, each with the products of its
  category and with none where the grouping has no entry. The grouping is built, and the
  list rendered once the collection is loaded without error, whenever the categories are
  among the three.
\<close>

theorem grouping_has_observed_keys:
  "(\<forall>grouped. groupedProducts localeCompare ps = Inr grouped \<longrightarrow>
       dom grouped = category ` set ps
       \<and> grouped = partition_by_category (sortedProducts localeCompare ps))
   \<and> ((\<forall>p\<in>set ps. typed p) \<longrightarrow> (\<exists>grouped. groupedProducts localeCompare ps = Inr grouped))
   \<and> (\<forall>groups. render localeCompare s = Inr (CategoryList groups) \<longrightarrow>
         map group_key groups = [fruits, vegetables, salads]
         \<and> map (\<lambda>g. map card_product (cards g)) groups =
             map (\<lambda>c. filter (\<lambda>p. category p = c) (sortedProducts localeCompare (products s)))
               [fruits, vegetables, salads])
   \<and> ((\<forall>p\<in>set (products s). typed p) \<and> \<not> loading s \<and> (error s = None \<or> error s = Some [])
        \<longrightarrow> (\<exists>groups. render localeCompare s = Inr (CategoryList groups)))"
proof -
  have keys: "dom grouped = category ` set ps
       \<and> grouped = partition_by_category (sortedProducts localeCompare ps)"
    if "groupedProducts localeCompare ps = Inr grouped" for grouped
    using groupedProducts_Inr [OF that]
    by (simp add: dom_partition_by_category set_sortedProducts)
  have built: "\<exists>grouped. groupedProducts localeCompare ps = Inr grouped"
    if "\<forall>p\<in>set ps. typed p"
  proof -
    from that have "\<forall>p\<in>set ps. category p \<notin> set objectPrototypeKeys"
      by (simp add: typed_not_inherited)
    then show ?thesis
      using groupedProducts_no_inherited by blast
  qed
  have groups: "map group_key groups = [fruits, vegetables, salads]
         \<and> map (\<lambda>g. map card_product (cards g)) groups =
             map (\<lambda>c. filter (\<lambda>p. category p = c) (sortedProducts localeCompare (products s)))
               [fruits, vegetables, salads]"
    if r: "render localeCompare s = Inr (CategoryList groups)" for groups
    using render_CategoryList [OF r] cards_of_rendered_groups [OF r]
    by (simp add: key_renderGroup)
  have rendered: "\<exists>groups. render localeCompare s = Inr (CategoryList groups)"
    if "\<forall>p\<in>set (products s). typed p" and "\<not> loading s"
      and "error s = None \<or> error s = Some []"
  proof -
    from that(1) have "\<forall>p\<in>set (products s). category p \<notin> set objectPrototypeKeys"
      by (simp add: typed_not_inherited)
    with that(2,3) show ?thesis
      using render_loaded by blast
  qed
  show ?thesis
    using keys built groups rendered by (intro conjI allI impI) blast+
qed

text \<open>
  The claim C1 as stated fails on the grouping: for the collection that holds only
  "apfel" the grouping has the key fruits and no key vegetables, and for the empty
  collection it has no key at all.
\<close>

theorem grouping_keys_counterexample:
  "groupedProducts sampleCompare [apfel] = Inr (Map.empty(fruits \<mapsto> [apfel]))
   \<and> (Map.empty(fruits \<mapsto> [apfel])) vegetables = None
   \<and> groupedProducts sampleCompare [] = Inr Map.empty"
  by (simp add: groupedProducts_def sortedProducts_def arraySort_def groupStep_def apfel_def
      objectPrototypeKeys_def ascii_def)

theorem grouping_has_observed_keys_witness:
  "(\<exists>grouped. groupedProducts sampleCompare [karotte, apfel] = Inr grouped
       \<and> dom grouped = {fruits, vegetables})
   \<and> (\<exists>groups. render sampleCompare (pageOf [karotte, apfel] None initialNewProduct) =
          Inr (CategoryList groups)
        \<and> map group_key groups = [fruits, vegetables, salads]
        \<and> map (\<lambda>g. map card_product (cards g)) groups = [[apfel], [karotte], []])"
proof -
  let ?s = "pageOf [karotte, apfel] None initialNewProduct"
  have ty: "\<forall>p\<in>set [karotte, apfel]. typed p"
    by (simp add: typed_def karotte_def apfel_def)
  have l: "(\<forall>p\<in>set (products ?s). typed p) \<and> \<not> loading ?s
      \<and> (error ?s = None \<or> error ?s = Some [])"
    using ty by (simp add: pageOf_def)
  have prods: "products ?s = [karotte, apfel]"
    by (simp add: pageOf_def)
  have sorted: "sortedProducts sampleCompare [karotte, apfel] = [apfel, karotte]"
    by (simp add: sortedProducts_def arraySort_def sortCompare_def compareProducts_def
        categoryOrder_def karotte_def apfel_def ascii_def)
  have cats: "category ` set [karotte, apfel] = {fruits, vegetables}"
    by (auto simp: karotte_def apfel_def)
  have filters: "map (\<lambda>c. filter (\<lambda>p. category p = c) [apfel, karotte]) [fruits, vegetables, salads]
      = [[apfel], [karotte], []]"
    by (simp add: karotte_def apfel_def ascii_def)
  note t = grouping_has_observed_keys [of sampleCompare "[karotte, apfel]" ?s,
      unfolded prods sorted cats filters]
  from t [THEN conjunct2, THEN conjunct1, THEN mp, OF ty]
  obtain grouped where g: "groupedProducts sampleCompare [karotte, apfel] = Inr grouped" ..
  from t [THEN conjunct1, rule_format, OF g]
  have d: "dom grouped = {fruits, vegetables}" ..
  from t [THEN conjunct2, THEN conjunct2, THEN conjunct2, THEN mp, OF l [unfolded prods]]
  obtain groups where r: "render sampleCompare ?s = Inr (CategoryList groups)" ..
  from t [THEN conjunct2, THEN conjunct2, THEN conjunct1, rule_format, OF r]
  have c: "map group_key groups = [fruits, vegetables, salads]
        \<and> map (\<lambda>g. map card_product (cards g)) groups = [[apfel], [karotte], []]" .
  from g d have first: "\<exists>grouped. groupedProducts sampleCompare [karotte, apfel] = Inr grouped
       \<and> dom grouped = {fruits, vegetables}"
    by (intro exI conjI)
  from r c [THEN conjunct1] c [THEN conjunct2] have second: "\<exists>groups. render sampleCompare ?s = Inr (CategoryList groups)
        \<and> map group_key groups = [fruits, vegetables, salads]
        \<and> map (\<lambda>g. map card_product (cards g)) groups = [[apfel], [karotte], []]"
    by (intro exI conjI)
  from first second show ?thesis by (rule conjI)
qed

end
